theory Spec2Isabelle
  imports Main "HOL-Library.Word"
begin

section \<open>Data model (main.go, dbController.go)\<close>

text \<open>
  Go's \<^verbatim>\<open>int\<close> on a 64-bit platform: a 64-bit two's complement integer whose
  addition wraps around. \<open>sint\<close> reads its value.
\<close>

type_synonym go_int = "64 word"

text \<open>
  The four outcome tags of dbController.go, in the order of the \<^verbatim>\<open>iota\<close>
  declaration.
\<close>

datatype DocumentStatus = OK | NotFound | CouldNotProceed | ImplementationError

text \<open>
  The structs of main.go. Every field is a pointer there; a nil pointer is \<open>None\<close>.
\<close>

record DocumentContent =
  Header :: "string option"
  Data :: "string option"

record Document =
  ID :: "go_int option"
  Title :: "string option"
  Content :: "DocumentContent option"
  Signee :: "string option"

section \<open>Validation (main.go)\<close>

text \<open>
  \<^verbatim>\<open>isCompleteDocument\<close>: the nested fields are read only under the
  \<^verbatim>\<open>document.Content != nil\<close> guard.
\<close>

definition isCompleteDocument :: "Document \<Rightarrow> bool" where
  "isCompleteDocument document =
     (case Content document of
        Some content \<Rightarrow>
          Title document \<noteq> None \<and> Header content \<noteq> None \<and>
          Data content \<noteq> None \<and> Signee document \<noteq> None
      | None \<Rightarrow> False)"

text \<open>
  \<^verbatim>\<open>isValidPatchDocument\<close>: \<^verbatim>\<open>existingContent\<close> starts false and is
  assigned only when the content pointer is set.
\<close>

definition isValidPatchDocument :: "Document \<Rightarrow> bool" where
  "isValidPatchDocument document =
     (let existingContent =
        (case Content document of
           Some content \<Rightarrow> Header content \<noteq> None \<or> Data content \<noteq> None
         | None \<Rightarrow> False)
      in existingContent \<or> Title document \<noteq> None \<or> Signee document \<noteq> None)"

section \<open>Results and panics\<close>

text \<open>
  A Go function either returns or panics. The one panic of the program is the nil
  pointer dereference \<^verbatim>\<open>*document.ID\<close> in \<^verbatim>\<open>getNewId\<close>.
\<close>

datatype 'a outcome = Returns 'a | Panics

section \<open>The document store\<close>

text \<open>
  Modelled from the spec: the MongoDB collection and its driver calls
  (\<^verbatim>\<open>FindOne\<close>, \<^verbatim>\<open>InsertOne\<close>, \<^verbatim>\<open>UpdateOne\<close>,
  \<^verbatim>\<open>DeleteOne\<close>) are an external collaborator: "a document store offering
  find-by-filter, find-with-sort, insert, field-level update-with-filter,
  delete-with-filter, each returning a distinguishable no-match outcome versus a
  transport/other failure". The collection is the list of stored documents in insertion
  order, each kept as the \<^verbatim>\<open>Document\<close> it decodes to. \<open>faults\<close> says, call by call, whether the next store call fails for a reason
  other than "no match" (connectivity, timeout, decoding); a failed call leaves the
  collection as it was. An exhausted list means that no further call fails. Every call
  consumes one entry of the list (\<open>afterCall\<close>).
\<close>

record store =
  collection :: "Document list"
  faults :: "bool list"

definition callFails :: "store \<Rightarrow> bool" where
  "callFails s = (case faults s of [] \<Rightarrow> False | f # fs \<Rightarrow> f)"

definition afterCall :: "store \<Rightarrow> store" where
  "afterCall s = s\<lparr>faults := drop 1 (faults s)\<rparr>"

text \<open>\<^verbatim>\<open>mongo.ErrNoDocuments\<close> against every other error of a find.\<close>

datatype find_error = ErrNoDocuments | ErrOther

datatype write_error = ErrWrite

text \<open>
  Modelled from the spec: \<^verbatim>\<open>FindOne\<close> with the filter \<^verbatim>\<open>{"id": id}\<close> and
  no sort option. It yields the first stored document carrying the identifier.
\<close>

definition FindOne_byId :: "go_int \<Rightarrow> store \<Rightarrow> (find_error + Document) \<times> store" where
  "FindOne_byId ident s =
     (if callFails s then (Inl ErrOther, afterCall s)
      else (case find (\<lambda>d. ID d = Some ident) (collection s) of
              None \<Rightarrow> (Inl ErrNoDocuments, afterCall s)
            | Some d \<Rightarrow> (Inr d, afterCall s)))"

text \<open>
  The order of the store on identifiers: a missing identifier sorts below every number,
  numbers by their signed value.
\<close>

definition idLess :: "go_int option \<Rightarrow> go_int option \<Rightarrow> bool" where
  "idLess a b =
     (case b of
        None \<Rightarrow> False
      | Some j \<Rightarrow> (case a of None \<Rightarrow> True | Some i \<Rightarrow> sint i < sint j))"

fun maxIdDocument :: "Document list \<Rightarrow> Document option" where
  "maxIdDocument [] = None"
| "maxIdDocument (d # ds) =
     (case maxIdDocument ds of
        None \<Rightarrow> Some d
      | Some m \<Rightarrow> if idLess (ID d) (ID m) then Some m else Some d)"

text \<open>
  Modelled from the spec: \<^verbatim>\<open>FindOne\<close> with the empty filter and the sort
  \<^verbatim>\<open>{"id": -1}\<close>: the document with the maximum identifier.
\<close>

definition FindOne_maxId :: "store \<Rightarrow> (find_error + Document) \<times> store" where
  "FindOne_maxId s =
     (if callFails s then (Inl ErrOther, afterCall s)
      else (case maxIdDocument (collection s) of
              None \<Rightarrow> (Inl ErrNoDocuments, afterCall s)
            | Some d \<Rightarrow> (Inr d, afterCall s)))"

text \<open>
  Modelled from the spec: \<^verbatim>\<open>InsertOne\<close> appends the document. The struct has
  no \<^verbatim>\<open>bson\<close> tags, so a nil field is stored as null.
\<close>

definition InsertOne :: "Document \<Rightarrow> store \<Rightarrow> write_error option \<times> store" where
  "InsertOne document s =
     (if callFails s then (Some ErrWrite, afterCall s)
      else (None, (afterCall s)\<lparr>collection := collection s @ [document]\<rparr>))"

fun removeFirst :: "('a \<Rightarrow> bool) \<Rightarrow> 'a list \<Rightarrow> 'a list" where
  "removeFirst P [] = []"
| "removeFirst P (x # xs) = (if P x then xs else x # removeFirst P xs)"

fun replaceFirst :: "('a \<Rightarrow> bool) \<Rightarrow> 'a \<Rightarrow> 'a list \<Rightarrow> 'a list" where
  "replaceFirst P y [] = []"
| "replaceFirst P y (x # xs) = (if P x then y # xs else x # replaceFirst P y xs)"

text \<open>
  Modelled from the spec: \<^verbatim>\<open>DeleteOne\<close> with the filter \<^verbatim>\<open>{"id": id}\<close>
  removes the first stored document carrying the identifier and reports the number of
  documents it removed.
\<close>

definition DeleteOne :: "go_int \<Rightarrow> store \<Rightarrow> (write_error + nat) \<times> store" where
  "DeleteOne ident s =
     (if callFails s then (Inl ErrWrite, afterCall s)
      else (case find (\<lambda>d. ID d = Some ident) (collection s) of
              None \<Rightarrow> (Inr 0, afterCall s)
            | Some d \<Rightarrow>
                (Inr 1, (afterCall s)\<lparr>collection :=
                   removeFirst (\<lambda>d. ID d = Some ident) (collection s)\<rparr>)))"

section \<open>The JSON codec and the flattening of a patch\<close>

text \<open>JSON values, as far as a document needs them (no arrays, no booleans).\<close>

datatype json = JNull | JNumber int | JString string | JObject "(string \<times> json) list"

text \<open>
  The struct tags of main.go: every field is \<^verbatim>\<open>omitempty\<close>, so a nil pointer
  leaves no member in the serialised object, and a pointer that is set always does.
\<close>

definition omitempty :: "string \<Rightarrow> json option \<Rightarrow> (string \<times> json) list" where
  "omitempty name v = (case v of None \<Rightarrow> [] | Some j \<Rightarrow> [(name, j)])"

definition marshalContent :: "DocumentContent \<Rightarrow> json" where
  "marshalContent content =
     JObject (omitempty ''header'' (map_option JString (Header content)) @
              omitempty ''data'' (map_option JString (Data content)))"

datatype codec_error = MarshalError | NotValidJsonInput

text \<open>
  Modelled from the spec: \<^verbatim>\<open>json.Marshal\<close> of a \<^verbatim>\<open>Document\<close>, "a JSON codec
  that omits unset optional fields on serialization". The serialised text is kept as the
  JSON value it denotes. No document makes the call fail. A string stands for the text it
  holds: a Go string that is not valid UTF-8, which the decoder of a request body never
  delivers and which the encoder would alter, is outside the model.
\<close>

definition jsonMarshal :: "Document \<Rightarrow> codec_error + json" where
  "jsonMarshal document =
     Inr (JObject
       (omitempty ''id'' (map_option (\<lambda>i. JNumber (sint i)) (ID document)) @
        omitempty ''title'' (map_option JString (Title document)) @
        omitempty ''content'' (map_option marshalContent (Content document)) @
        omitempty ''signee'' (map_option JString (Signee document))))"

text \<open>
  Go decodes a JSON number into an untyped map as a \<^verbatim>\<open>float64\<close>: the nearest
  double, ties to the even mantissa. On integers this is integer arithmetic: an integer
  of at most 53 bits is kept, a longer one is rounded to 53 significant bits.
\<close>

fun bitlen :: "nat \<Rightarrow> nat" where
  "bitlen n = (if n = 0 then 0 else Suc (bitlen (n div 2)))"

declare bitlen.simps [simp del]

definition float64_of_int :: "int \<Rightarrow> int" where
  "float64_of_int i =
     (let a = nat \<bar>i\<bar>; e = bitlen a - 53 in
      if e = 0 then i
      else let q = a div 2 ^ e; r = a mod 2 ^ e; h = 2 ^ (e - 1);
               q' = (if h < r \<or> (r = h \<and> odd q) then q + 1 else q)
           in sgn i * int (q' * 2 ^ e))"

fun decodeInterface :: "json \<Rightarrow> json" where
  "decodeInterface (JNumber n) = JNumber (float64_of_int n)"
| "decodeInterface (JObject kvs) = JObject (map (\<lambda>(k, v). (k, decodeInterface v)) kvs)"
| "decodeInterface v = v"

text \<open>
  Modelled from the spec: \<^verbatim>\<open>flatten.FlattenString\<close> in dot style, "flatten the
  patch's non-null fields into a dotted-path key-to-value mapping (e.g. content.header
  to value)"; "null/absent fields are entirely excluded from this mapping". The input is
  decoded into an untyped map first. A nested object contributes its members under the
  joined key and nothing for itself.
\<close>

definition enkey :: "bool \<Rightarrow> string \<Rightarrow> string \<Rightarrow> string" where
  "enkey isTop prefix subkey = (if isTop then prefix @ subkey else prefix @ ''.'' @ subkey)"

fun flatten :: "bool \<Rightarrow> string \<Rightarrow> json \<Rightarrow> (string \<times> json) list"
  and flattenFields :: "bool \<Rightarrow> string \<Rightarrow> (string \<times> json) list \<Rightarrow> (string \<times> json) list"
  and assign :: "string \<Rightarrow> json \<Rightarrow> (string \<times> json) list" where
  "flatten isTop prefix (JObject kvs) = flattenFields isTop prefix kvs"
| "flatten isTop prefix v = []"
| "flattenFields isTop prefix [] = []"
| "flattenFields isTop prefix ((k, v) # kvs) =
     assign (enkey isTop prefix k) v @ flattenFields isTop prefix kvs"
| "assign newKey (JObject kvs) = flatten False newKey (JObject kvs)"
| "assign newKey v = [(newKey, v)]"

definition FlattenString :: "json \<Rightarrow> string \<Rightarrow> codec_error + json" where
  "FlattenString nestedstr prefix =
     (case decodeInterface nestedstr of
        JObject kvs \<Rightarrow> Inr (JObject (flatten True prefix (JObject kvs)))
      | _ \<Rightarrow> Inl NotValidJsonInput)"

text \<open>
  Modelled from the spec: \<^verbatim>\<open>json.Unmarshal\<close> into a
  \<^verbatim>\<open>map[string]interface{}\<close>. A later member wins over an earlier one of the same
  name; a value that is no object leaves the map empty (the program ignores the error).
  The numbers of the flat document were written from doubles and are read back as the
  same doubles.
\<close>

definition jsonUnmarshal :: "json \<Rightarrow> (string \<rightharpoonup> json)" where
  "jsonUnmarshal flatDocument =
     (case flatDocument of JObject kvs \<Rightarrow> map_of (rev kvs) | _ \<Rightarrow> Map.empty)"

text \<open>\<^verbatim>\<open>toStrippedMap\<close> of dbController.go: serialise, flatten, read back.\<close>

definition toStrippedMap :: "Document \<Rightarrow> codec_error + (string \<rightharpoonup> json)" where
  "toStrippedMap document =
     (case jsonMarshal document of
        Inl serialErr \<Rightarrow> Inl serialErr
      | Inr serialDocument \<Rightarrow>
          (case FlattenString serialDocument [] of
             Inl flatErr \<Rightarrow> Inl flatErr
           | Inr flatDocument \<Rightarrow> Inr (jsonUnmarshal flatDocument)))"

section \<open>Field-level update of the store\<close>

text \<open>
  Modelled from the spec: the \<^verbatim>\<open>$set\<close> operator of \<^verbatim>\<open>UpdateOne\<close>, a
  "targeted field-level merge against the store record matching the identifier". A key
  of the map writes the field at its dotted path; a field with no key is left as it is.
  The model covers the five leaf paths of a document. A number written to the
  identifier is read back as a Go integer (\<open>word_of_int\<close>); this is the stored
  number itself unless it is the double \<open>2 ^ 63\<close>, to which the identifiers within
  512 of the largest Go integer round and which no \<^verbatim>\<open>Document\<close> holds. The store
  refuses (\<open>None\<close>) a write below \<open>content\<close> when the stored content is null, and a
  value of a type the field cannot hold.
\<close>

definition setString :: "json option \<Rightarrow> string option \<Rightarrow> string option option" where
  "setString v old =
     (case v of
        None \<Rightarrow> Some old
      | Some (JString t) \<Rightarrow> Some (Some t)
      | Some JNull \<Rightarrow> Some None
      | Some _ \<Rightarrow> None)"

definition setNumber :: "json option \<Rightarrow> go_int option \<Rightarrow> go_int option option" where
  "setNumber v old =
     (case v of
        None \<Rightarrow> Some old
      | Some (JNumber n) \<Rightarrow> Some (Some (word_of_int n))
      | Some JNull \<Rightarrow> Some None
      | Some _ \<Rightarrow> None)"

definition setContent ::
  "json option \<Rightarrow> json option \<Rightarrow> DocumentContent option \<Rightarrow> DocumentContent option option" where
  "setContent h d old =
     (if h = None \<and> d = None then Some old
      else (case old of
              None \<Rightarrow> None
            | Some c \<Rightarrow>
                (case (setString h (Header c), setString d (Data c)) of
                   (Some h', Some d') \<Rightarrow> Some (Some \<lparr>Header = h', Data = d'\<rparr>)
                 | _ \<Rightarrow> None)))"

definition applySet :: "(string \<rightharpoonup> json) \<Rightarrow> Document \<Rightarrow> Document option" where
  "applySet m d =
     (case (setNumber (m ''id'') (ID d), setString (m ''title'') (Title d),
            setContent (m ''content.header'') (m ''content.data'') (Content d),
            setString (m ''signee'') (Signee d)) of
        (Some i, Some t, Some c, Some g) \<Rightarrow>
          Some \<lparr>ID = i, Title = t, Content = c, Signee = g\<rparr>
      | _ \<Rightarrow> None)"

text \<open>
  Modelled from the spec: \<^verbatim>\<open>UpdateOne\<close> with the filter \<^verbatim>\<open>{"id": id}\<close>,
  the update \<^verbatim>\<open>{"$set": strippedMap}\<close> and no upsert. It updates the first stored
  document carrying the identifier and reports the number of documents that matched.
\<close>

definition UpdateOne ::
  "go_int \<Rightarrow> (string \<rightharpoonup> json) \<Rightarrow> store \<Rightarrow> (write_error + nat) \<times> store" where
  "UpdateOne ident strippedMap s =
     (if callFails s then (Inl ErrWrite, afterCall s)
      else (case find (\<lambda>d. ID d = Some ident) (collection s) of
              None \<Rightarrow> (Inr 0, afterCall s)
            | Some old \<Rightarrow>
                (case applySet strippedMap old of
                   None \<Rightarrow> (Inl ErrWrite, afterCall s)
                 | Some new \<Rightarrow>
                     (Inr 1, (afterCall s)\<lparr>collection :=
                        replaceFirst (\<lambda>d. ID d = Some ident) new (collection s)\<rparr>))))"

section \<open>Document access (dbController.go)\<close>

text \<open>
  Every function takes the store and returns the store it leaves, next to what the Go
  function returns. A nil \<^verbatim>\<open>*Document\<close> is \<open>None\<close>.
\<close>

definition getDocument :: "go_int \<Rightarrow> store \<Rightarrow> (DocumentStatus \<times> Document option) \<times> store" where
  "getDocument ident s =
     (case FindOne_byId ident s of
        (Inl findErr, s') \<Rightarrow>
          if findErr = ErrNoDocuments then ((NotFound, None), s')
          else ((CouldNotProceed, None), s')
      | (Inr document, s') \<Rightarrow> ((OK, Some document), s'))"

text \<open>
  \<^verbatim>\<open>getNewId\<close> returns an integer and an error. \<^verbatim>\<open>*document.ID + 1\<close>
  dereferences the identifier of the document found: a stored document without one makes
  the function panic. The addition is Go's, on 64 bits.
\<close>

definition getNewId :: "store \<Rightarrow> (go_int \<times> find_error option) outcome \<times> store" where
  "getNewId s =
     (case FindOne_maxId s of
        (Inl findErr, s') \<Rightarrow>
          if findErr = ErrNoDocuments then (Returns (0, None), s')
          else (Returns (- 1, Some findErr), s')
      | (Inr document, s') \<Rightarrow>
          (case ID document of
             None \<Rightarrow> (Panics, s')
           | Some i \<Rightarrow> (Returns (i + 1, None), s')))"

definition internalGetDocument ::
  "go_int \<Rightarrow> store \<Rightarrow> (DocumentStatus \<times> Document option) \<times> store" where
  "internalGetDocument ident s =
     (case getDocument ident s of
        ((status, document), s') \<Rightarrow>
          (case status of
             OK \<Rightarrow> ((OK, document), s')
           | CouldNotProceed \<Rightarrow> ((CouldNotProceed, None), s')
           | NotFound \<Rightarrow> ((ImplementationError, None), s')
           | ImplementationError \<Rightarrow> ((ImplementationError, None), s')))"

definition createDocument ::
  "Document \<Rightarrow> store \<Rightarrow> (DocumentStatus \<times> Document option) outcome \<times> store" where
  "createDocument document s =
     (case getNewId s of
        (Panics, s1) \<Rightarrow> (Panics, s1)
      | (Returns (newId, idErr), s1) \<Rightarrow>
          if idErr \<noteq> None then (Returns (CouldNotProceed, None), s1)
          else (case InsertOne (document\<lparr>ID := Some newId\<rparr>) s1 of
                  (Some insertErr, s2) \<Rightarrow> (Returns (CouldNotProceed, None), s2)
                | (None, s2) \<Rightarrow>
                    (case internalGetDocument newId s2 of (r, s3) \<Rightarrow> (Returns r, s3))))"

definition updateDocument ::
  "Document \<Rightarrow> store \<Rightarrow> (DocumentStatus \<times> Document option) \<times> store" where
  "updateDocument patchDocument s =
     (case ID patchDocument of
        None \<Rightarrow> ((ImplementationError, None), s)
      | Some ident \<Rightarrow>
          (case toStrippedMap patchDocument of
             Inl stripErr \<Rightarrow> ((ImplementationError, None), s)
           | Inr strippedMap \<Rightarrow>
               (case UpdateOne ident strippedMap s of
                  (Inl updateErr, s') \<Rightarrow> ((CouldNotProceed, None), s')
                | (Inr matchedCount, s') \<Rightarrow>
                    if matchedCount = 0 then ((NotFound, None), s')
                    else internalGetDocument ident s')))"

definition deleteDocument :: "go_int \<Rightarrow> store \<Rightarrow> DocumentStatus \<times> store" where
  "deleteDocument ident s =
     (case DeleteOne ident s of
        (Inl deleteErr, s') \<Rightarrow> (CouldNotProceed, s')
      | (Inr deletedCount, s') \<Rightarrow>
          if deletedCount = 0 then (NotFound, s') else (OK, s'))"

section \<open>The HTTP handlers (main.go)\<close>

text \<open>
  Modelled from the spec: \<^verbatim>\<open>strconv.Atoi\<close> and \<^verbatim>\<open>strconv.Itoa\<close>, "the
  path-supplied id must be a valid integer": an optional sign and at least one decimal
  digit, of a value a 64-bit integer holds.
\<close>

definition digitVal :: "char \<Rightarrow> nat option" where
  "digitVal c = map_of (zip ''0123456789'' [0, 1, 2, 3, 4, 5, 6, 7, 8, 9]) c"

fun parseDigits :: "nat \<Rightarrow> string \<Rightarrow> nat option" where
  "parseDigits n [] = Some n"
| "parseDigits n (c # cs) =
     (case digitVal c of None \<Rightarrow> None | Some d \<Rightarrow> parseDigits (n * 10 + d) cs)"

definition toInt :: "string \<Rightarrow> go_int option" where
  "toInt str =
     (case (case str of
              [] \<Rightarrow> (False, [])
            | c # cs \<Rightarrow>
                if c = CHR ''-'' then (True, cs)
                else if c = CHR ''+'' then (False, cs) else (False, str)) of
        (neg, ds) \<Rightarrow>
          if ds = [] then None
          else (case parseDigits 0 ds of
                  None \<Rightarrow> None
                | Some n \<Rightarrow>
                    if neg then (if 2 ^ 63 < n then None else Some (word_of_int (- int n)))
                    else (if 2 ^ 63 \<le> n then None else Some (word_of_int (int n)))))"

definition digitChar :: "nat \<Rightarrow> char" where
  "digitChar d = ''0123456789'' ! d"

fun digitsOf :: "nat \<Rightarrow> string" where
  "digitsOf n =
     (if n < 10 then [digitChar n] else digitsOf (n div 10) @ [digitChar (n mod 10)])"

declare digitsOf.simps [simp del]

definition toString :: "go_int \<Rightarrow> string" where
  "toString i =
     (if sint i < 0 then CHR ''-'' # digitsOf (nat (- sint i)) else digitsOf (nat (sint i)))"

text \<open>
  A request, as far as the handlers read it: the \<^verbatim>\<open>:id\<close> path parameter, and
  what gin's \<^verbatim>\<open>BindJSON\<close> makes of the body (\<open>None\<close> when the body is not a JSON
  object of the shape of a document).
\<close>

record request =
  idParam :: string
  jsonBody :: "Document option"

definition getIDParam :: "request \<Rightarrow> string" where
  "getIDParam ginCon = idParam ginCon"

definition bindDocument :: "request \<Rightarrow> Document option" where
  "bindDocument ginCon = jsonBody ginCon"

datatype HttpError = HttpError (Message: string)

datatype jsonObj = DocumentObj "Document option" | ErrorObj HttpError | NilObj

record response =
  httpCode :: nat
  body :: jsonObj

definition sendJsonHttpResponse :: "nat \<Rightarrow> jsonObj \<Rightarrow> response" where
  "sendJsonHttpResponse code obj = \<lparr>httpCode = code, body = obj\<rparr>"

abbreviation StatusOK :: nat where "StatusOK \<equiv> 200"
abbreviation StatusNoContent :: nat where "StatusNoContent \<equiv> 204"
abbreviation StatusBadRequest :: nat where "StatusBadRequest \<equiv> 400"
abbreviation StatusNotFound :: nat where "StatusNotFound \<equiv> 404"
abbreviation StatusInternalServerError :: nat where "StatusInternalServerError \<equiv> 500"
abbreviation StatusBadGateway :: nat where "StatusBadGateway \<equiv> 502"

definition notANumber :: "request \<Rightarrow> response" where
  "notANumber ginCon =
     sendJsonHttpResponse StatusBadRequest
       (ErrorObj (HttpError (''requested id '' @ [CHR 0x27] @ getIDParam ginCon @
                             [CHR 0x27] @ '' is not a number'')))"

text \<open>
  \<^verbatim>\<open>handleUpdateDocument\<close>, up to its call of \<^verbatim>\<open>updateDocument\<close>: either
  the response of an early return, or the patch document the call receives.
\<close>

definition handleUpdateDocument_validate :: "request \<Rightarrow> response + Document" where
  "handleUpdateDocument_validate ginCon =
     (case toInt (getIDParam ginCon) of
        None \<Rightarrow> Inl (notANumber ginCon)
      | Some ident \<Rightarrow>
          (case bindDocument ginCon of
             None \<Rightarrow>
               Inl (sendJsonHttpResponse StatusBadRequest
                      (ErrorObj (HttpError ''illegal structure of json object'')))
           | Some patchDocument \<Rightarrow>
               if \<not> isValidPatchDocument patchDocument then
                 Inl (sendJsonHttpResponse StatusBadRequest
                        (ErrorObj (HttpError
                           ''not a valid document for update; at least one field except id is needed.'')))
               else (case ID patchDocument of
                       Some bodyId \<Rightarrow>
                         if bodyId \<noteq> ident then
                           Inl (sendJsonHttpResponse StatusBadRequest
                                  (ErrorObj (HttpError
                                     (''id in request ('' @ toString ident @
                                      '') does not correpsond to id in json object ('' @
                                      toString bodyId @ '')''))))
                         else Inr patchDocument
                     | None \<Rightarrow> Inr (patchDocument\<lparr>ID := Some ident\<rparr>))))"

text \<open>The \<^verbatim>\<open>switch\<close> on the status that \<^verbatim>\<open>updateDocument\<close> returned.\<close>

definition handleUpdateDocument_respond ::
  "request \<Rightarrow> DocumentStatus \<times> Document option \<Rightarrow> response" where
  "handleUpdateDocument_respond ginCon r =
     (case r of (status, updatedDocument) \<Rightarrow>
        (case status of
           OK \<Rightarrow> sendJsonHttpResponse StatusOK (DocumentObj updatedDocument)
         | CouldNotProceed \<Rightarrow>
             sendJsonHttpResponse StatusBadGateway
               (ErrorObj (HttpError ''external database does not respond properly''))
         | NotFound \<Rightarrow>
             sendJsonHttpResponse StatusNotFound
               (ErrorObj (HttpError (''could not find document with id '' @ getIDParam ginCon)))
         | ImplementationError \<Rightarrow>
             sendJsonHttpResponse StatusInternalServerError
               (ErrorObj (HttpError ''unexpected server state''))))"

definition handleUpdateDocument :: "request \<Rightarrow> store \<Rightarrow> response \<times> store" where
  "handleUpdateDocument ginCon s =
     (case handleUpdateDocument_validate ginCon of
        Inl early \<Rightarrow> (early, s)
      | Inr patchDocument \<Rightarrow>
          (case updateDocument patchDocument s of
             (r, s') \<Rightarrow> (handleUpdateDocument_respond ginCon r, s')))"

definition handleDeleteDocument :: "request \<Rightarrow> store \<Rightarrow> response \<times> store" where
  "handleDeleteDocument ginCon s =
     (case toInt (getIDParam ginCon) of
        None \<Rightarrow> (notANumber ginCon, s)
      | Some ident \<Rightarrow>
          (case deleteDocument ident s of
             (status, s') \<Rightarrow>
               ((case status of
                   OK \<Rightarrow> sendJsonHttpResponse StatusNoContent NilObj
                 | CouldNotProceed \<Rightarrow>
                     sendJsonHttpResponse StatusBadGateway
                       (ErrorObj (HttpError ''external database does not respond properly''))
                 | NotFound \<Rightarrow>
                     sendJsonHttpResponse StatusNotFound
                       (ErrorObj (HttpError
                          (''could not find document with id '' @ getIDParam ginCon)))
                 | ImplementationError \<Rightarrow>
                     sendJsonHttpResponse StatusInternalServerError
                       (ErrorObj (HttpError ''unexpected server state''))), s')))"

section \<open>What an update writes\<close>

text \<open>
  The sparse field-set of a patch, stated directly: one dotted key for each field of the
  patch that is set, with the value of that field, and no other key.
\<close>

definition sparseFieldSet :: "Document \<Rightarrow> (string \<rightharpoonup> json)" where
  "sparseFieldSet patch =
     (\<lambda>k. if k = ''id'' then map_option (\<lambda>i. JNumber (sint i)) (ID patch)
          else if k = ''title'' then map_option JString (Title patch)
          else if k = ''content.header'' then
            (case Content patch of None \<Rightarrow> None | Some c \<Rightarrow> map_option JString (Header c))
          else if k = ''content.data'' then
            (case Content patch of None \<Rightarrow> None | Some c \<Rightarrow> map_option JString (Data c))
          else if k = ''signee'' then map_option JString (Signee patch)
          else None)"

text \<open>
  The merge of a patch into a stored document, field by field: a field that the patch
  provides overwrites the stored one, a field that it leaves out keeps the stored value.
\<close>

definition overwrite :: "'a option \<Rightarrow> 'a option \<Rightarrow> 'a option" where
  "overwrite provided stored = (case provided of Some v \<Rightarrow> Some v | None \<Rightarrow> stored)"

definition mergeProvidedFields :: "Document \<Rightarrow> Document \<Rightarrow> Document" where
  "mergeProvidedFields patch stored =
     \<lparr>ID = overwrite (ID patch) (ID stored),
      Title = overwrite (Title patch) (Title stored),
      Content =
        (case Content stored of
           None \<Rightarrow> None
         | Some c \<Rightarrow>
             Some \<lparr>Header = overwrite (case Content patch of None \<Rightarrow> None | Some p \<Rightarrow> Header p)
                               (Header c),
                   Data = overwrite (case Content patch of None \<Rightarrow> None | Some p \<Rightarrow> Data p)
                             (Data c)\<rparr>),
      Signee = overwrite (Signee patch) (Signee stored)\<rparr>"

text \<open>The patch sets \<open>content.header\<close> or \<open>content.data\<close>.\<close>

definition writesBelowContent :: "Document \<Rightarrow> bool" where
  "writesBelowContent patch =
     (case Content patch of None \<Rightarrow> False | Some p \<Rightarrow> Header p \<noteq> None \<or> Data p \<noteq> None)"

text \<open>
  What the code computes, for the proofs. The identifier reaches the store through the
  untyped map, as a double, and is read back from there: \<open>readBack\<close>.
  \<open>strippedMapOf\<close> is the map that \<^verbatim>\<open>toStrippedMap\<close> returns: the sparse
  field-set with the double under \<open>id\<close>. \<open>writtenDocument\<close> is what the
  \<^verbatim>\<open>$set\<close> of that map makes of a stored document: the merge, with the identifier
  read back from the double.
\<close>

definition readBack :: "go_int \<Rightarrow> go_int" where
  "readBack i = word_of_int (float64_of_int (sint i))"

definition strippedMapOf :: "Document \<Rightarrow> (string \<rightharpoonup> json)" where
  "strippedMapOf patch =
     (sparseFieldSet patch)
       (''id'' := map_option (\<lambda>i. JNumber (float64_of_int (sint i))) (ID patch))"

definition writtenDocument :: "Document \<Rightarrow> Document \<Rightarrow> Document" where
  "writtenDocument patch stored =
     (mergeProvidedFields patch stored)
       \<lparr>ID := overwrite (map_option readBack (ID patch)) (ID stored)\<rparr>"

text \<open>The store after the two successful calls that precede the re-fetch of a create.\<close>

definition insertedStore :: "Document \<Rightarrow> go_int \<Rightarrow> store \<Rightarrow> store" where
  "insertedStore document newId s =
     (afterCall (afterCall s))\<lparr>collection := collection s @ [document\<lparr>ID := Some newId\<rparr>]\<rparr>"

section \<open>Example documents\<close>

text \<open>The stored document, the patch and the result of the update example of the spec.\<close>

definition storedExample :: Document where
  "storedExample =
     \<lparr>ID = Some 1, Title = Some ''A'',
      Content = Some \<lparr>Header = Some ''H'', Data = Some ''D''\<rparr>, Signee = Some ''S''\<rparr>"

definition patchExample :: Document where
  "patchExample =
     \<lparr>ID = Some 1, Title = None,
      Content = Some \<lparr>Header = Some ''H2'', Data = None\<rparr>, Signee = None\<rparr>"

definition mergedExample :: Document where
  "mergedExample =
     \<lparr>ID = Some 1, Title = Some ''A'',
      Content = Some \<lparr>Header = Some ''H2'', Data = Some ''D''\<rparr>, Signee = Some ''S''\<rparr>"

text \<open>A create request body that carries an identifier of the client's.\<close>

definition newExample :: Document where
  "newExample =
     \<lparr>ID = Some 7, Title = Some ''t'',
      Content = Some \<lparr>Header = Some ''h'', Data = Some ''d''\<rparr>, Signee = Some ''s''\<rparr>"

text \<open>A stored document whose identifier is the largest 64-bit integer.\<close>

definition maxIdExample :: Document where
  "maxIdExample =
     \<lparr>ID = Some 9223372036854775807, Title = Some ''A'',
      Content = Some \<lparr>Header = Some ''H'', Data = Some ''D''\<rparr>, Signee = Some ''S''\<rparr>"



definition emptyStore :: store where
  "emptyStore = \<lparr>collection = [], faults = []\<rparr>"

definition exampleStore :: store where
  "exampleStore = \<lparr>collection = [storedExample], faults = []\<rparr>"

definition failingStore :: store where
  "failingStore = \<lparr>collection = [storedExample], faults = [True]\<rparr>"

section \<open>Properties of the validation predicates\<close>

text \<open>
  C4. A document is complete exactly when its content is present and title,
  content.header, content.data and signee are all present. The document with only a
  title is not complete; the document with title, signee and both content fields is.
\<close>

theorem isCompleteDocument_iff:
  "(isCompleteDocument document \<longleftrightarrow>
      (\<exists>content. Content document = Some content \<and> Title document \<noteq> None \<and>
         Header content \<noteq> None \<and> Data content \<noteq> None \<and> Signee document \<noteq> None))
   \<and> \<not> isCompleteDocument
         \<lparr>ID = None, Title = Some ''t'', Content = None, Signee = None\<rparr>
   \<and> isCompleteDocument
         \<lparr>ID = None, Title = Some ''t'',
          Content = Some \<lparr>Header = Some ''h'', Data = Some ''d''\<rparr>, Signee = Some ''s''\<rparr>"
  by (simp add: isCompleteDocument_def split: option.splits)

text \<open>
  C5. A patch is valid exactly when at least one of title, signee, content.header and
  content.data is present. The empty patch is not valid; the patches with only a title,
  only a content header, only a signee are.
\<close>

theorem isValidPatchDocument_iff:
  "(isValidPatchDocument document \<longleftrightarrow>
      (Title document \<noteq> None \<or> Signee document \<noteq> None \<or>
       (\<exists>content. Content document = Some content \<and>
          (Header content \<noteq> None \<or> Data content \<noteq> None))))
   \<and> \<not> isValidPatchDocument \<lparr>ID = None, Title = None, Content = None, Signee = None\<rparr>
   \<and> isValidPatchDocument \<lparr>ID = None, Title = Some ''t'', Content = None, Signee = None\<rparr>
   \<and> isValidPatchDocument
         \<lparr>ID = None, Title = None, Content = Some \<lparr>Header = Some ''h'', Data = None\<rparr>,
          Signee = None\<rparr>
   \<and> isValidPatchDocument \<lparr>ID = None, Title = None, Content = None, Signee = Some ''s''\<rparr>"
  by (auto simp: isValidPatchDocument_def split: option.splits)

theorem isValidPatchDocument_iff_witness:
  "isValidPatchDocument
     \<lparr>ID = Some 1, Title = None, Content = Some \<lparr>Header = None, Data = Some ''d''\<rparr>,
      Signee = None\<rparr>
   \<and> (\<exists>content. Content \<lparr>ID = Some (1 :: go_int), Title = None,
                   Content = Some \<lparr>Header = None, Data = Some ''d''\<rparr>,
                   Signee = None\<rparr> = Some content \<and> Data content \<noteq> None)
   \<and> \<not> isValidPatchDocument
         \<lparr>ID = Some 1, Title = None, Content = Some \<lparr>Header = None, Data = None\<rparr>,
          Signee = None\<rparr>"
  using isValidPatchDocument_iff
    [of "\<lparr>ID = Some 1, Title = None, Content = Some \<lparr>Header = None, Data = Some ''d''\<rparr>,
         Signee = None\<rparr>"]
    isValidPatchDocument_iff
    [of "\<lparr>ID = Some 1, Title = None, Content = Some \<lparr>Header = None, Data = None\<rparr>,
         Signee = None\<rparr>"]
  by simp

section \<open>Evaluation of the store calls\<close>

lemma collection_afterCall [simp]: "collection (afterCall s) = collection s"
  by (simp add: afterCall_def)

lemma callFails_collection_update [simp]:
  "callFails (s\<lparr>collection := xs\<rparr>) = callFails s"
  by (simp add: callFails_def)

lemma afterCall_collection_update [simp]:
  "afterCall (s\<lparr>collection := xs\<rparr>) = (afterCall s)\<lparr>collection := xs\<rparr>"
  by (simp add: afterCall_def)

lemma example_stores [simp]:
  "callFails emptyStore = False" "afterCall emptyStore = emptyStore"
  "callFails exampleStore = False" "afterCall exampleStore = exampleStore"
  "callFails failingStore = True" "afterCall failingStore = exampleStore"
  "collection emptyStore = []" "collection exampleStore = [storedExample]"
  "collection failingStore = [storedExample]"
  by (simp_all add: callFails_def afterCall_def emptyStore_def exampleStore_def
        failingStore_def)

lemma getDocument_eq:
  "getDocument ident s =
     (if callFails s then ((CouldNotProceed, None), afterCall s)
      else (case find (\<lambda>d. ID d = Some ident) (collection s) of
              None \<Rightarrow> ((NotFound, None), afterCall s)
            | Some d \<Rightarrow> ((OK, Some d), afterCall s)))"
  by (simp add: getDocument_def FindOne_byId_def split: option.splits)

lemma internalGetDocument_eq:
  "internalGetDocument ident s =
     (if callFails s then ((CouldNotProceed, None), afterCall s)
      else (case find (\<lambda>d. ID d = Some ident) (collection s) of
              None \<Rightarrow> ((ImplementationError, None), afterCall s)
            | Some d \<Rightarrow> ((OK, Some d), afterCall s)))"
  by (simp add: internalGetDocument_def getDocument_eq split: option.splits)

lemma deleteDocument_eq:
  "deleteDocument ident s =
     (if callFails s then (CouldNotProceed, afterCall s)
      else (case find (\<lambda>d. ID d = Some ident) (collection s) of
              None \<Rightarrow> (NotFound, afterCall s)
            | Some d \<Rightarrow>
                (OK, (afterCall s)\<lparr>collection :=
                   removeFirst (\<lambda>d. ID d = Some ident) (collection s)\<rparr>)))"
  by (simp add: deleteDocument_def DeleteOne_def split: option.splits)

lemma getNewId_eq:
  "getNewId s =
     (if callFails s then (Returns (- 1, Some ErrOther), afterCall s)
      else (case maxIdDocument (collection s) of
              None \<Rightarrow> (Returns (0, None), afterCall s)
            | Some d \<Rightarrow>
                (case ID d of
                   None \<Rightarrow> (Panics, afterCall s)
                 | Some i \<Rightarrow> (Returns (i + 1, None), afterCall s))))"
  by (simp add: getNewId_def FindOne_maxId_def split: option.splits)

lemma createDocument_eq:
  "createDocument document s =
     (if callFails s then (Returns (CouldNotProceed, None), afterCall s)
      else (case (case maxIdDocument (collection s) of
                    None \<Rightarrow> Some 0
                  | Some d \<Rightarrow> map_option (\<lambda>i. i + 1) (ID d)) of
              None \<Rightarrow> (Panics, afterCall s)
            | Some newId \<Rightarrow>
                if callFails (afterCall s)
                then (Returns (CouldNotProceed, None), afterCall (afterCall s))
                else (Returns (fst (internalGetDocument newId (insertedStore document newId s))),
                      snd (internalGetDocument newId (insertedStore document newId s)))))"
  by (simp add: createDocument_def getNewId_eq InsertOne_def insertedStore_def
        split: option.splits prod.splits)

section \<open>Lists of stored documents\<close>

lemma find_removeFirst_unique:
  "length (filter P xs) \<le> 1 \<Longrightarrow> find P (removeFirst P xs) = None"
  by (induction xs) (auto simp: find_None_iff filter_empty_conv)

lemma length_removeFirst:
  "find P xs \<noteq> None \<Longrightarrow> Suc (length (removeFirst P xs)) = length xs"
  by (induction xs) auto



lemma find_append:
  "find P (xs @ ys) = (case find P xs of None \<Rightarrow> find P ys | Some x \<Rightarrow> Some x)"
  by (induction xs) auto

lemma maxIdDocument_None [simp]: "maxIdDocument ds = None \<longleftrightarrow> ds = []"
  by (cases ds) (auto split: option.splits)

lemma maxIdDocument_Some:
  "maxIdDocument ds = Some m \<Longrightarrow> m \<in> set ds \<and> (\<forall>d\<in>set ds. \<not> idLess (ID m) (ID d))"
proof (induction ds arbitrary: m)
  case Nil
  then show ?case by simp
next
  case (Cons d ds)
  show ?case
  proof (cases "maxIdDocument ds")
    case None
    with Cons.prems show ?thesis by (auto simp: idLess_def split: option.splits)
  next
    case (Some m')
    from Cons.IH [OF Some] have m': "m' \<in> set ds" "\<forall>x\<in>set ds. \<not> idLess (ID m') (ID x)"
      by auto
    show ?thesis
    proof (cases "idLess (ID d) (ID m')")
      case True
      with Some Cons.prems have "m = m'" by simp
      with m' True show ?thesis by (auto simp: idLess_def split: option.splits)
    next
      case False
      with Some Cons.prems have md: "m = d" by simp
      have "\<not> idLess (ID d) (ID x)" if "x \<in> set ds" for x
      proof
        assume lt: "idLess (ID d) (ID x)"
        from m'(2) that have "\<not> idLess (ID m') (ID x)" by blast
        with lt False show False by (auto simp: idLess_def split: option.splits)
      qed
      with md show ?thesis by (auto simp: idLess_def split: option.splits)
    qed
  qed
qed

section \<open>Numbers\<close>

lemma bitlen_le: "n < 2 ^ k \<Longrightarrow> bitlen n \<le> k"
proof (induction k arbitrary: n)
  case 0
  then show ?case by (simp add: bitlen.simps)
next
  case (Suc k)
  show ?case
  proof (cases "n = 0")
    case True
    then show ?thesis by (simp add: bitlen.simps)
  next
    case False
    from Suc.prems have "n div 2 < 2 ^ k" by simp
    then have "bitlen (n div 2) \<le> k" by (rule Suc.IH)
    with False show ?thesis by (subst bitlen.simps) simp
  qed
qed

text \<open>A double holds every integer below \<open>2 ^ 53\<close> in magnitude.\<close>

lemma float64_of_int_exact: "\<bar>i\<bar> < 2 ^ 53 \<Longrightarrow> float64_of_int i = i"
proof -
  assume "\<bar>i\<bar> < 2 ^ 53"
  then have "nat \<bar>i\<bar> < 2 ^ 53" by (simp add: nat_less_iff)
  then have "bitlen (nat \<bar>i\<bar>) \<le> 53" by (rule bitlen_le)
  then show ?thesis by (simp add: float64_of_int_def Let_def)
qed

lemma readBack_exact: "\<bar>sint i\<bar> < 2 ^ 53 \<Longrightarrow> readBack i = i"
  by (simp add: readBack_def float64_of_int_exact)

lemma sint_succ: "sint (m :: go_int) < 2 ^ 63 - 1 \<Longrightarrow> sint (m + 1) = sint m + 1"
proof -
  assume a: "sint m < 2 ^ 63 - 1"
  have "- (2 ^ 63) \<le> sint m" using sint_ge [of m] by simp
  with a show ?thesis
    by (simp add: sint_word_ariths signed_take_bit_int_eq_self)
qed

lemma toInt_3: "toInt ''3'' = Some 3"
  by (simp add: toInt_def digitVal_def)

lemma toInt_1: "toInt ''1'' = Some 1"
  by (simp add: toInt_def digitVal_def)

lemma toString_3: "toString 3 = ''3''"
  by (simp add: toString_def digitsOf.simps digitChar_def)

lemma toString_5: "toString 5 = ''5''"
  by (simp add: toString_def digitsOf.simps digitChar_def)

section \<open>The stripped map and the update\<close>

lemma toStrippedMap_eq: "toStrippedMap patch = Inr (strippedMapOf patch)"
proof -
  have "jsonUnmarshal (JObject (flatten True [] (decodeInterface (JObject
          (omitempty ''id'' (map_option (\<lambda>i. JNumber (sint i)) (ID patch)) @
           omitempty ''title'' (map_option JString (Title patch)) @
           omitempty ''content'' (map_option marshalContent (Content patch)) @
           omitempty ''signee'' (map_option JString (Signee patch))))))) k
        = strippedMapOf patch k" for k
    by (cases "ID patch"; cases "Title patch"; cases "Signee patch"; cases "Content patch")
       (auto simp: jsonUnmarshal_def omitempty_def marshalContent_def enkey_def
          strippedMapOf_def sparseFieldSet_def split: option.splits)
  then show ?thesis
    by (auto simp: toStrippedMap_def jsonMarshal_def FlattenString_def)
qed




lemma strippedMapOf_exact:
  assumes "ID patch = Some i" and "\<bar>sint i\<bar> < 2 ^ 53"
  shows "strippedMapOf patch = sparseFieldSet patch"
proof
  fix k
  from assms show "strippedMapOf patch k = sparseFieldSet patch k"
    by (simp add: strippedMapOf_def sparseFieldSet_def float64_of_int_exact)
qed

lemma toStrippedMap_sparse:
  "ID patch = Some i \<Longrightarrow> \<bar>sint i\<bar> < 2 ^ 53 \<Longrightarrow> toStrippedMap patch = Inr (sparseFieldSet patch)"
  by (simp add: toStrippedMap_eq strippedMapOf_exact)

lemma applySet_strippedMapOf:
  "applySet (strippedMapOf patch) stored =
     (if writesBelowContent patch \<and> Content stored = None then None
      else Some (writtenDocument patch stored))"
  by (cases "ID patch"; cases "Title patch"; cases "Signee patch"; cases "Content patch";
      cases "Content stored")
     (auto simp: applySet_def strippedMapOf_def sparseFieldSet_def setNumber_def setString_def
        setContent_def writtenDocument_def mergeProvidedFields_def overwrite_def
        writesBelowContent_def readBack_def split: option.splits)

lemma writtenDocument_exact:
  "ID patch = Some i \<Longrightarrow> \<bar>sint i\<bar> < 2 ^ 53 \<Longrightarrow>
     writtenDocument patch stored = mergeProvidedFields patch stored"
  by (simp add: writtenDocument_def mergeProvidedFields_def overwrite_def readBack_exact)


lemma updateDocument_eq:
  assumes "ID patchDocument = Some ident"
  shows "updateDocument patchDocument s =
     (if callFails s then ((CouldNotProceed, None), afterCall s)
      else (case find (\<lambda>d. ID d = Some ident) (collection s) of
              None \<Rightarrow> ((NotFound, None), afterCall s)
            | Some stored \<Rightarrow>
                if writesBelowContent patchDocument \<and> Content stored = None
                then ((CouldNotProceed, None), afterCall s)
                else internalGetDocument ident
                       ((afterCall s)\<lparr>collection :=
                          replaceFirst (\<lambda>d. ID d = Some ident)
                            (writtenDocument patchDocument stored) (collection s)\<rparr>)))"
  using assms
  by (simp add: updateDocument_def toStrippedMap_eq UpdateOne_def applySet_strippedMapOf
        split: option.splits)




lemma mergedExample_eq: "mergeProvidedFields patchExample storedExample = mergedExample"
  by (simp add: patchExample_def storedExample_def mergedExample_def
        mergeProvidedFields_def overwrite_def)

lemma updateDocument_example:
  "updateDocument patchExample exampleStore =
     ((OK, Some mergedExample), \<lparr>collection = [mergedExample], faults = []\<rparr>)"
proof -
  have "ID patchExample = Some 1" by (simp add: patchExample_def)
  moreover have "writtenDocument patchExample storedExample = mergedExample"
    using writtenDocument_exact [of patchExample 1 storedExample] calculation
    by (simp add: mergedExample_eq)
  moreover have "\<not> (writesBelowContent patchExample \<and> Content storedExample = None)"
    by (simp add: storedExample_def)
  moreover have "ID storedExample = Some 1" "ID mergedExample = Some 1"
    by (simp_all add: storedExample_def mergedExample_def)
  ultimately show ?thesis
    by (simp add: updateDocument_eq [of _ 1] internalGetDocument_eq)
       (simp add: exampleStore_def)
qed



lemma updateDocument_NotFound:
  assumes "updateDocument patchDocument s = ((NotFound, r), s')"
  shows "\<exists>ident. ID patchDocument = Some ident \<and> \<not> callFails s \<and>
           find (\<lambda>d. ID d = Some ident) (collection s) = None \<and> s' = afterCall s"
  using assms
  by (auto simp: updateDocument_def UpdateOne_def internalGetDocument_eq
      split: option.splits sum.splits prod.splits if_splits)

lemma createDocument_not_NotFound:
  "createDocument document s \<noteq> (Returns (NotFound, r), s')"
  by (auto simp: createDocument_def internalGetDocument_eq
      split: prod.splits outcome.splits option.splits if_splits)

section \<open>Status and document\<close>

lemma getDocument_cases:
  "getDocument ident s = ((st, r), s') \<Longrightarrow>
     (st = OK \<and> r \<noteq> None) \<or> (st = NotFound \<and> r = None) \<or> (st = CouldNotProceed \<and> r = None)"
  by (auto simp: getDocument_eq split: if_splits option.splits) metis

lemma internalGetDocument_cases:
  "internalGetDocument ident s = ((st, r), s') \<Longrightarrow>
     (st = OK \<and> r \<noteq> None) \<or> (st = ImplementationError \<and> r = None) \<or>
     (st = CouldNotProceed \<and> r = None)"
  by (auto simp: internalGetDocument_eq split: if_splits option.splits) metis

lemma createDocument_cases:
  "createDocument document s = (Returns (st, r), s') \<Longrightarrow>
     (st = OK \<and> r \<noteq> None) \<or> (st = ImplementationError \<and> r = None) \<or>
     (st = CouldNotProceed \<and> r = None)"
  by (auto simp: createDocument_def split: prod.splits outcome.splits if_splits option.splits
        dest: internalGetDocument_cases)

lemma updateDocument_cases:
  "updateDocument patchDocument s = ((st, r), s') \<Longrightarrow>
     (st = OK \<and> r \<noteq> None) \<or> (st = ImplementationError \<and> r = None) \<or>
     (st = CouldNotProceed \<and> r = None) \<or> (st = NotFound \<and> r = None)"
  by (auto simp: updateDocument_def split: prod.splits sum.splits if_splits option.splits
        dest: internalGetDocument_cases)

section \<open>Update\<close>




text \<open>
  C6. For a patch without an identifier, \<^verbatim>\<open>updateDocument\<close> returns
  ImplementationError and a nil document, and the store is the one it was given: no call
  was made, no entry of the fault list was consumed. The status differs from NotFound and
  CouldNotProceed, and the handler's switch answers 500 for it, 404 and 502 for the other
  two.
\<close>

theorem updateDocument_without_identifier:
  assumes "ID patchDocument = None"
  shows "updateDocument patchDocument s = ((ImplementationError, None), s)
     \<and> ImplementationError \<noteq> NotFound \<and> ImplementationError \<noteq> CouldNotProceed
     \<and> handleUpdateDocument_respond ginCon (fst (updateDocument patchDocument s)) =
         \<lparr>httpCode = 500, body = ErrorObj (HttpError ''unexpected server state'')\<rparr>
     \<and> httpCode (handleUpdateDocument_respond ginCon (NotFound, None)) = 404
     \<and> httpCode (handleUpdateDocument_respond ginCon (CouldNotProceed, None)) = 502"
  using assms
  by (simp add: updateDocument_def handleUpdateDocument_respond_def sendJsonHttpResponse_def)

theorem updateDocument_without_identifier_witness:
  "ID (patchExample\<lparr>ID := None\<rparr>) = None
   \<and> updateDocument (patchExample\<lparr>ID := None\<rparr>) failingStore =
       ((ImplementationError, None), failingStore)
   \<and> faults failingStore = [True]"
  using updateDocument_without_identifier [of "patchExample\<lparr>ID := None\<rparr>" failingStore]
  by (simp add: failingStore_def)

text \<open>
  C9. When \<^verbatim>\<open>handleUpdateDocument\<close> reaches its call of \<^verbatim>\<open>updateDocument\<close>,
  the path parameter has parsed to an identifier, the body has been bound to a document
  whose identifier is absent or equal to it, and the patch passed is that document with
  the path identifier as its identifier. So the guard \<^verbatim>\<open>patchDocument.ID == nil\<close> of
  \<^verbatim>\<open>updateDocument\<close> is false at this call.
\<close>

theorem handler_passes_path_identifier:
  assumes "handleUpdateDocument_validate ginCon = Inr patchDocument"
  shows "\<exists>ident document.
           toInt (getIDParam ginCon) = Some ident \<and>
           bindDocument ginCon = Some document \<and>
           (ID document = None \<or> ID document = Some ident) \<and>
           patchDocument = document\<lparr>ID := Some ident\<rparr> \<and>
           ID patchDocument = Some ident \<and> ID patchDocument \<noteq> None \<and>
           (\<forall>s. handleUpdateDocument ginCon s =
                 (handleUpdateDocument_respond ginCon (fst (updateDocument patchDocument s)),
                  snd (updateDocument patchDocument s)))"
  using assms
  by (auto simp: handleUpdateDocument_validate_def handleUpdateDocument_def
           split: option.splits if_splits prod.splits)

lemma validate_example:
  "handleUpdateDocument_validate
     \<lparr>idParam = ''1'', jsonBody = Some (patchExample\<lparr>ID := None\<rparr>)\<rparr> = Inr patchExample"
  by (simp add: handleUpdateDocument_validate_def getIDParam_def bindDocument_def toInt_1
        isValidPatchDocument_def patchExample_def)

theorem handler_passes_path_identifier_witness:
  "handleUpdateDocument_validate
     \<lparr>idParam = ''1'', jsonBody = Some (patchExample\<lparr>ID := None\<rparr>)\<rparr> = Inr patchExample
   \<and> toInt ''1'' = Some 1 \<and> ID patchExample = Some 1
   \<and> handleUpdateDocument
       \<lparr>idParam = ''1'', jsonBody = Some (patchExample\<lparr>ID := None\<rparr>)\<rparr> exampleStore =
       (\<lparr>httpCode = 200, body = DocumentObj (Some mergedExample)\<rparr>,
        \<lparr>collection = [mergedExample], faults = []\<rparr>)"
proof -
  let ?req = "\<lparr>idParam = ''1'', jsonBody = Some (patchExample\<lparr>ID := None\<rparr>)\<rparr>"
  from handler_passes_path_identifier [OF validate_example]
  have "handleUpdateDocument ?req exampleStore =
          (handleUpdateDocument_respond ?req (fst (updateDocument patchExample exampleStore)),
           snd (updateDocument patchExample exampleStore))"
    by blast
  moreover have "ID patchExample = Some 1"
    by (simp add: patchExample_def)
  ultimately show ?thesis
    by (simp add: validate_example toInt_1 updateDocument_example
          handleUpdateDocument_respond_def sendJsonHttpResponse_def)
qed

text \<open>
  C3, as amended. For a PATCH request whose path parameter parses and whose body binds to
  a document, when the body carries an identifier that differs from the path identifier
  the response is 400 and the store is left as it was; the message names both
  identifiers when the patch has at least one of title, signee, content.header and
  content.data, and is the message of the empty patch otherwise, since the patch is
  validated before the identifiers are compared. When the body carries no identifier and
  the patch is valid, the patch passed on is the body with the path identifier.
\<close>

theorem update_identifier_mismatch:
  assumes "toInt (getIDParam ginCon) = Some ident"
    and "bindDocument ginCon = Some document"
  shows "(ID document = Some bodyId \<and> bodyId \<noteq> ident \<longrightarrow>
            handleUpdateDocument ginCon s =
              (\<lparr>httpCode = 400,
                body = ErrorObj (HttpError
                  (if isValidPatchDocument document
                   then ''id in request ('' @ toString ident @
                        '') does not correpsond to id in json object ('' @
                        toString bodyId @ '')''
                   else ''not a valid document for update; at least one field except id is needed.''))\<rparr>,
               s))
       \<and> (ID document = None \<and> isValidPatchDocument document \<longrightarrow>
            handleUpdateDocument_validate ginCon = Inr (document\<lparr>ID := Some ident\<rparr>))"
  using assms
  by (simp add: handleUpdateDocument_def handleUpdateDocument_validate_def
        sendJsonHttpResponse_def)

theorem update_identifier_mismatch_witness:
  "handleUpdateDocument
     \<lparr>idParam = ''3'',
      jsonBody = Some \<lparr>ID = Some 5, Title = Some ''t'', Content = None, Signee = None\<rparr>\<rparr>
     emptyStore =
     (\<lparr>httpCode = 400,
       body = ErrorObj (HttpError
         ''id in request (3) does not correpsond to id in json object (5)'')\<rparr>,
      emptyStore)
   \<and> handleUpdateDocument_validate
       \<lparr>idParam = ''3'',
        jsonBody = Some \<lparr>ID = None, Title = Some ''t'', Content = None, Signee = None\<rparr>\<rparr> =
       Inr \<lparr>ID = Some 3, Title = Some ''t'', Content = None, Signee = None\<rparr>
   \<and> toInt ''3'' = Some 3 \<and> (5 :: go_int) \<noteq> 3"
  using update_identifier_mismatch
      [of "\<lparr>idParam = ''3'',
            jsonBody = Some \<lparr>ID = Some 5, Title = Some ''t'', Content = None, Signee = None\<rparr>\<rparr>"
          3 "\<lparr>ID = Some 5, Title = Some ''t'', Content = None, Signee = None\<rparr>" 5
          emptyStore]
    update_identifier_mismatch
      [of "\<lparr>idParam = ''3'',
            jsonBody = Some \<lparr>ID = None, Title = Some ''t'', Content = None, Signee = None\<rparr>\<rparr>"
          3 "\<lparr>ID = None, Title = Some ''t'', Content = None, Signee = None\<rparr>" 5
          emptyStore]
  by (simp add: getIDParam_def bindDocument_def toInt_3 toString_3 toString_5
        isValidPatchDocument_def)

text \<open>
  The request with path identifier 3 and the body \<^verbatim>\<open>{"id": 5}\<close>: the identifiers
  differ, and the response is the 400 of the empty patch, which names neither of them.
\<close>

theorem conflict_response_counterexample:
  "toInt (getIDParam \<lparr>idParam = ''3'',
      jsonBody = Some \<lparr>ID = Some 5, Title = None, Content = None, Signee = None\<rparr>\<rparr>) = Some 3
   \<and> bindDocument \<lparr>idParam = ''3'',
      jsonBody = Some \<lparr>ID = Some 5, Title = None, Content = None, Signee = None\<rparr>\<rparr> =
      Some \<lparr>ID = Some 5, Title = None, Content = None, Signee = None\<rparr>
   \<and> (5 :: go_int) \<noteq> 3
   \<and> fst (handleUpdateDocument
       \<lparr>idParam = ''3'',
        jsonBody = Some \<lparr>ID = Some 5, Title = None, Content = None, Signee = None\<rparr>\<rparr>
       emptyStore) =
       \<lparr>httpCode = 400,
        body = ErrorObj (HttpError
          ''not a valid document for update; at least one field except id is needed.'')\<rparr>
   \<and> fst (handleUpdateDocument
       \<lparr>idParam = ''3'',
        jsonBody = Some \<lparr>ID = Some 5, Title = None, Content = None, Signee = None\<rparr>\<rparr>
       emptyStore) \<noteq>
       \<lparr>httpCode = 400,
        body = ErrorObj (HttpError
          (''id in request ('' @ toString 3 @
           '') does not correpsond to id in json object ('' @ toString 5 @ '')''))\<rparr>"
  by (simp add: handleUpdateDocument_def handleUpdateDocument_validate_def
        sendJsonHttpResponse_def getIDParam_def bindDocument_def toInt_3 toString_3 toString_5
        isValidPatchDocument_def)

section \<open>Create\<close>

lemma createDocument_example:
  "createDocument newExample exampleStore =
     (Returns (OK, Some (newExample\<lparr>ID := Some 2\<rparr>)),
      \<lparr>collection = [storedExample, newExample\<lparr>ID := Some 2\<rparr>], faults = []\<rparr>)"
  by (simp add: createDocument_eq insertedStore_def internalGetDocument_eq idLess_def
        storedExample_def newExample_def exampleStore_def callFails_def afterCall_def)

lemma createDocument_empty_example:
  "createDocument newExample emptyStore =
     (Returns (OK, Some (newExample\<lparr>ID := Some 0\<rparr>)),
      \<lparr>collection = [newExample\<lparr>ID := Some 0\<rparr>], faults = []\<rparr>)"
  by (simp add: createDocument_eq insertedStore_def internalGetDocument_eq
        newExample_def emptyStore_def callFails_def afterCall_def)

text \<open>
  C2, as amended. For every document successfully created, the stored document is the
  request's document with its identifier overwritten by the new one, and the returned
  document carries the new identifier. The new identifier is 0 when the collection was
  empty, and otherwise the maximum stored identifier plus one in Go's 64-bit arithmetic:
  the integer after the maximum when the maximum is below \<open>2 ^ 63 - 1\<close>, in which
  case the returned document is the stored one.
\<close>

theorem created_identifier:
  assumes "createDocument document s = (Returns (OK, Some created), s')"
  shows "\<exists>newId.
      ID created = Some newId
    \<and> collection s' = collection s @ [document\<lparr>ID := Some newId\<rparr>]
    \<and> (collection s = [] \<longrightarrow> newId = 0 \<and> created = document\<lparr>ID := Some 0\<rparr>)
    \<and> (collection s \<noteq> [] \<longrightarrow>
         (\<exists>top m. top \<in> set (collection s) \<and> ID top = Some m
            \<and> (\<forall>d\<in>set (collection s). \<forall>i. ID d = Some i \<longrightarrow> sint i \<le> sint m)
            \<and> newId = m + 1
            \<and> (sint m < 2 ^ 63 - 1 \<longrightarrow>
                 sint newId = sint m + 1 \<and> created = document\<lparr>ID := Some newId\<rparr>)))"
proof -
  note eq = assms [unfolded createDocument_eq]
  from eq have nofail: "\<not> callFails s" by (auto split: if_splits)
  from eq nofail obtain newId where
    newId: "(case maxIdDocument (collection s) of None \<Rightarrow> Some 0
            | Some d \<Rightarrow> map_option (\<lambda>i. i + 1) (ID d)) = Some newId"
    by (auto split: if_splits option.splits)
  let ?P = "\<lambda>d. ID d = Some newId"
  let ?doc = "document\<lparr>ID := Some newId\<rparr>"
  let ?s2 = "insertedStore document newId s"
  from eq nofail newId have fetch: "fst (internalGetDocument newId ?s2) = (OK, Some created)"
    and s': "s' = snd (internalGetDocument newId ?s2)"
    by (auto split: if_splits)
  have coll2: "collection ?s2 = collection s @ [?doc]"
    by (simp add: insertedStore_def)
  from fetch have found: "find ?P (collection s @ [?doc]) = Some created"
    by (auto simp: internalGetDocument_eq coll2 split: if_splits option.splits)
  then have idc: "ID created = Some newId"
    by (auto simp: find_Some_iff)
  from s' have colls': "collection s' = collection s @ [?doc]"
    by (simp add: internalGetDocument_eq coll2 split: option.splits)
  have fresh: "created = ?doc" if "find ?P (collection s) = None"
    using found that by (simp add: find_append)
  have empty: "newId = 0 \<and> created = document\<lparr>ID := Some 0\<rparr>" if "collection s = []"
    using that newId fresh by simp
  have nonempty: "\<exists>top m. top \<in> set (collection s) \<and> ID top = Some m
            \<and> (\<forall>d\<in>set (collection s). \<forall>i. ID d = Some i \<longrightarrow> sint i \<le> sint m)
            \<and> newId = m + 1
            \<and> (sint m < 2 ^ 63 - 1 \<longrightarrow>
                 sint newId = sint m + 1 \<and> created = document\<lparr>ID := Some newId\<rparr>)"
    if ne: "collection s \<noteq> []"
  proof -
    from ne obtain top where top: "maxIdDocument (collection s) = Some top"
      by (cases "maxIdDocument (collection s)") auto
    with newId obtain m where m: "ID top = Some m" "newId = m + 1"
      by (cases "ID top") auto
    from maxIdDocument_Some [OF top] have mem: "top \<in> set (collection s)"
      and maxi: "\<forall>d\<in>set (collection s). \<not> idLess (ID top) (ID d)" by auto
    have le: "sint i \<le> sint m" if "d \<in> set (collection s)" "ID d = Some i" for d i
      using maxi that m(1) by (auto simp: idLess_def)
    have step: "sint newId = sint m + 1 \<and> created = ?doc" if small: "sint m < 2 ^ 63 - 1"
    proof -
      from small m(2) have sn: "sint newId = sint m + 1" by (simp add: sint_succ)
      have "find ?P (collection s) = None"
      proof (rule ccontr)
        assume "find ?P (collection s) \<noteq> None"
        then obtain d where "d \<in> set (collection s)" "ID d = Some newId"
          by (auto simp: find_None_iff)
        with le have "sint newId \<le> sint m" by blast
        with sn show False by simp
      qed
      with fresh sn show ?thesis by simp
    qed
    from mem m le step show ?thesis by blast
  qed
  from idc colls' empty nonempty show ?thesis by blast
qed

theorem created_identifier_witness:
  "createDocument newExample exampleStore =
     (Returns (OK, Some (newExample\<lparr>ID := Some 2\<rparr>)),
      \<lparr>collection = [storedExample, newExample\<lparr>ID := Some 2\<rparr>], faults = []\<rparr>)
   \<and> createDocument newExample emptyStore =
     (Returns (OK, Some (newExample\<lparr>ID := Some 0\<rparr>)),
      \<lparr>collection = [newExample\<lparr>ID := Some 0\<rparr>], faults = []\<rparr>)
   \<and> collection emptyStore = [] \<and> collection exampleStore \<noteq> []
   \<and> storedExample \<in> set (collection exampleStore) \<and> ID storedExample = Some 1
   \<and> sint (1 :: go_int) < 2 ^ 63 - 1 \<and> ID newExample = Some 7"
  using created_identifier [OF createDocument_example]
    created_identifier [OF createDocument_empty_example]
    createDocument_example createDocument_empty_example
  by (simp add: storedExample_def newExample_def)

text \<open>
  The collection that holds a document with the identifier \<open>2 ^ 63 - 1\<close>: the
  identifier of the created document is \<open>- (2 ^ 63)\<close>, not the maximum plus one.
\<close>

theorem created_identifier_overflow:
  "fst (createDocument newExample \<lparr>collection = [maxIdExample], faults = []\<rparr>) =
     Returns (OK, Some (newExample\<lparr>ID := Some (- 9223372036854775808)\<rparr>))
   \<and> collection \<lparr>collection = [maxIdExample], faults = []\<rparr> = [maxIdExample]
   \<and> ID maxIdExample = Some 9223372036854775807
   \<and> sint (9223372036854775807 :: go_int) = 9223372036854775807
   \<and> sint (- 9223372036854775808 :: go_int) = - 9223372036854775808
   \<and> sint (- 9223372036854775808 :: go_int) \<noteq> sint (9223372036854775807 :: go_int) + 1"
  by (simp add: createDocument_eq insertedStore_def internalGetDocument_eq idLess_def
        maxIdExample_def newExample_def callFails_def afterCall_def)

section \<open>Re-fetch, delete, and the coupling of status and document\<close>

text \<open>
  C7. \<^verbatim>\<open>internalGetDocument\<close> never returns NotFound. It returns OK with the
  document when \<^verbatim>\<open>getDocument\<close> does, CouldNotProceed when the store fails, and
  ImplementationError in every other case, the one where no stored document carries the
  identifier included. Hence \<^verbatim>\<open>createDocument\<close> never returns NotFound, and
  \<^verbatim>\<open>updateDocument\<close> returns NotFound only when no stored document matched the
  identifier and nothing was written.
\<close>

theorem refetch_miss_is_ImplementationError:
  "fst (fst (internalGetDocument ident s)) \<noteq> NotFound
   \<and> snd (internalGetDocument ident s) = snd (getDocument ident s)
   \<and> (fst (getDocument ident s) = (OK, document) \<longrightarrow>
        fst (internalGetDocument ident s) = (OK, document))
   \<and> (fst (fst (getDocument ident s)) = CouldNotProceed \<longrightarrow>
        fst (internalGetDocument ident s) = (CouldNotProceed, None))
   \<and> (fst (fst (getDocument ident s)) = NotFound \<longrightarrow>
        fst (internalGetDocument ident s) = (ImplementationError, None))
   \<and> (fst (fst (getDocument ident s)) \<noteq> OK \<and>
        fst (fst (getDocument ident s)) \<noteq> CouldNotProceed \<longrightarrow>
        fst (internalGetDocument ident s) = (ImplementationError, None))
   \<and> (callFails s \<longrightarrow> fst (internalGetDocument ident s) = (CouldNotProceed, None))
   \<and> (\<not> callFails s \<and> find (\<lambda>d. ID d = Some ident) (collection s) = None \<longrightarrow>
        fst (getDocument ident s) = (NotFound, None) \<and>
        fst (internalGetDocument ident s) = (ImplementationError, None))
   \<and> (\<not> callFails s \<and> find (\<lambda>d. ID d = Some ident) (collection s) = Some stored \<longrightarrow>
        fst (internalGetDocument ident s) = (OK, Some stored))
   \<and> (getNewId s = (Returns (newId, None), sa) \<and>
        InsertOne (newDocument\<lparr>ID := Some newId\<rparr>) sa = (None, sb) \<longrightarrow>
        createDocument newDocument s =
          (Returns (fst (internalGetDocument newId sb)), snd (internalGetDocument newId sb)))
   \<and> createDocument newDocument s \<noteq> (Returns (NotFound, r), s')
   \<and> (ID patchDocument = Some patchId \<and> toStrippedMap patchDocument = Inr strippedMap \<and>
        UpdateOne patchId strippedMap s = (Inr matchedCount, sa) \<and> matchedCount \<noteq> 0 \<longrightarrow>
        updateDocument patchDocument s = internalGetDocument patchId sa)
   \<and> (updateDocument patchDocument s = ((NotFound, r), s') \<longrightarrow>
        (\<exists>i. ID patchDocument = Some i \<and>
             find (\<lambda>d. ID d = Some i) (collection s) = None \<and> collection s' = collection s))"
proof -
  have "fst (fst (internalGetDocument ident s)) \<noteq> NotFound"
    by (simp add: internalGetDocument_eq split: option.splits)
  moreover have "snd (internalGetDocument ident s) = snd (getDocument ident s)"
    by (simp add: internalGetDocument_eq getDocument_eq split: option.splits)
  moreover have "fst (getDocument ident s) = (OK, document) \<longrightarrow>
        fst (internalGetDocument ident s) = (OK, document)"
    by (simp add: internalGetDocument_eq getDocument_eq split: option.splits)
  moreover have "fst (fst (getDocument ident s)) = CouldNotProceed \<longrightarrow>
        fst (internalGetDocument ident s) = (CouldNotProceed, None)"
    by (simp add: internalGetDocument_eq getDocument_eq split: option.splits)
  moreover have "fst (fst (getDocument ident s)) = NotFound \<longrightarrow>
        fst (internalGetDocument ident s) = (ImplementationError, None)"
    by (simp add: internalGetDocument_eq getDocument_eq split: option.splits)
  moreover have "fst (fst (getDocument ident s)) \<noteq> OK \<and>
        fst (fst (getDocument ident s)) \<noteq> CouldNotProceed \<longrightarrow>
        fst (internalGetDocument ident s) = (ImplementationError, None)"
    by (simp add: internalGetDocument_eq getDocument_eq split: option.splits)
  moreover have "callFails s \<longrightarrow> fst (internalGetDocument ident s) = (CouldNotProceed, None)"
    by (simp add: internalGetDocument_eq)
  moreover have "\<not> callFails s \<and> find (\<lambda>d. ID d = Some ident) (collection s) = None \<longrightarrow>
        fst (getDocument ident s) = (NotFound, None) \<and>
        fst (internalGetDocument ident s) = (ImplementationError, None)"
    by (simp add: internalGetDocument_eq getDocument_eq)
  moreover have "\<not> callFails s \<and> find (\<lambda>d. ID d = Some ident) (collection s) = Some stored \<longrightarrow>
        fst (internalGetDocument ident s) = (OK, Some stored)"
    by (simp add: internalGetDocument_eq)
  moreover have "getNewId s = (Returns (newId, None), sa) \<and>
        InsertOne (newDocument\<lparr>ID := Some newId\<rparr>) sa = (None, sb) \<longrightarrow>
        createDocument newDocument s =
          (Returns (fst (internalGetDocument newId sb)), snd (internalGetDocument newId sb))"
    by (simp add: createDocument_def split: prod.splits)
  moreover have "ID patchDocument = Some patchId \<and>
        toStrippedMap patchDocument = Inr strippedMap \<and>
        UpdateOne patchId strippedMap s = (Inr matchedCount, sa) \<and> matchedCount \<noteq> 0 \<longrightarrow>
        updateDocument patchDocument s = internalGetDocument patchId sa"
    by (simp add: updateDocument_def)
  moreover have "createDocument newDocument s \<noteq> (Returns (NotFound, r), s')"
    by (rule createDocument_not_NotFound)
  moreover have "updateDocument patchDocument s = ((NotFound, r), s') \<longrightarrow>
        (\<exists>i. ID patchDocument = Some i \<and>
             find (\<lambda>d. ID d = Some i) (collection s) = None \<and> collection s' = collection s)"
    using updateDocument_NotFound [of patchDocument s r s'] by auto
  ultimately show ?thesis by blast
qed

lemma find_examples [simp]:
  "find (\<lambda>d. ID d = Some 1) [storedExample] = Some storedExample"
  "ID storedExample = Some 1" "ID patchExample = Some 1"
  by (simp_all add: storedExample_def patchExample_def)

lemma updateDocument_missing_example:
  "updateDocument patchExample emptyStore = ((NotFound, None), emptyStore)"
  by (simp add: updateDocument_eq [of _ 1])

theorem refetch_miss_is_ImplementationError_witness:
  "fst (getDocument 1 exampleStore) = (OK, Some storedExample)
   \<and> fst (internalGetDocument 1 exampleStore) = (OK, Some storedExample)
   \<and> callFails failingStore
   \<and> fst (fst (getDocument 1 failingStore)) = CouldNotProceed
   \<and> fst (internalGetDocument 1 failingStore) = (CouldNotProceed, None)
   \<and> \<not> callFails emptyStore \<and> find (\<lambda>d. ID d = Some 1) (collection emptyStore) = None
   \<and> fst (getDocument 1 emptyStore) = (NotFound, None)
   \<and> fst (internalGetDocument 1 emptyStore) = (ImplementationError, None)
   \<and> updateDocument patchExample emptyStore = ((NotFound, None), emptyStore)
   \<and> getNewId exampleStore = (Returns (2, None), exampleStore)
   \<and> InsertOne (newExample\<lparr>ID := Some 2\<rparr>) exampleStore =
       (None, \<lparr>collection = [storedExample, newExample\<lparr>ID := Some 2\<rparr>], faults = []\<rparr>)
   \<and> ID patchExample = Some 1
   \<and> toStrippedMap patchExample = Inr (sparseFieldSet patchExample)
   \<and> UpdateOne 1 (sparseFieldSet patchExample) exampleStore =
       (Inr 1, \<lparr>collection = [mergedExample], faults = []\<rparr>)
   \<and> (1 :: nat) \<noteq> 0"
proof -
  have newId: "getNewId exampleStore = (Returns (2, None), exampleStore)"
    by (simp add: getNewId_eq)
  have ins: "InsertOne (newExample\<lparr>ID := Some 2\<rparr>) exampleStore =
       (None, \<lparr>collection = [storedExample, newExample\<lparr>ID := Some 2\<rparr>], faults = []\<rparr>)"
    by (simp add: InsertOne_def) (simp add: exampleStore_def)
  have small: "\<bar>sint (1 :: go_int)\<bar> < 2 ^ 53"
    by simp
  have sparse: "strippedMapOf patchExample = sparseFieldSet patchExample"
    by (rule strippedMapOf_exact [of _ 1]) (simp_all add: patchExample_def)
  have stripped: "toStrippedMap patchExample = Inr (sparseFieldSet patchExample)"
    by (rule toStrippedMap_sparse [of _ 1]) (simp_all add: patchExample_def)
  have pid: "ID patchExample = Some 1"
    by (simp add: patchExample_def)
  have merged: "writtenDocument patchExample storedExample = mergedExample"
    using writtenDocument_exact [OF pid small, of storedExample]
    by (simp add: mergedExample_eq)
  have content: "Content storedExample \<noteq> None"
    by (simp add: storedExample_def)
  have upd: "UpdateOne 1 (sparseFieldSet patchExample) exampleStore =
       (Inr 1, \<lparr>collection = [mergedExample], faults = []\<rparr>)"
    using applySet_strippedMapOf [of patchExample storedExample]
    by (simp add: UpdateOne_def sparse content merged) (simp add: exampleStore_def)
  from refetch_miss_is_ImplementationError
      [where ident = 1 and s = exampleStore and document = "Some storedExample"
         and stored = storedExample and newDocument = newExample and newId = 2
         and sa = exampleStore
         and sb = "\<lparr>collection = [storedExample, newExample\<lparr>ID := Some 2\<rparr>], faults = []\<rparr>"]
    refetch_miss_is_ImplementationError
      [where s = exampleStore and patchDocument = patchExample and patchId = 1
         and strippedMap = "sparseFieldSet patchExample" and matchedCount = 1
         and sa = "\<lparr>collection = [mergedExample], faults = []\<rparr>"]
    refetch_miss_is_ImplementationError [where ident = 1 and s = failingStore]
    refetch_miss_is_ImplementationError
      [where ident = 1 and s = emptyStore and patchDocument = patchExample and r = None
         and s' = emptyStore]
  show ?thesis
    by (simp add: getDocument_eq internalGetDocument_eq updateDocument_missing_example
          newId ins upd stripped)
qed

text \<open>
  C8. \<^verbatim>\<open>deleteDocument\<close> returns CouldNotProceed when the store fails, NotFound when
  no stored document carries the identifier (the collection is left as it was), and OK
  when one does, which is then removed. A second delete of an identifier that no
  stored document carries any more returns NotFound again; that is the case after the
  first delete whenever at most one stored document carried it. The handler answers 204,
  404 and 502 for the three statuses.
\<close>

theorem delete_status:
  "(callFails s \<longrightarrow> deleteDocument ident s = (CouldNotProceed, afterCall s))
   \<and> (\<not> callFails s \<and> find (\<lambda>d. ID d = Some ident) (collection s) = None \<longrightarrow>
        deleteDocument ident s = (NotFound, afterCall s))
   \<and> (\<not> callFails s \<and> find (\<lambda>d. ID d = Some ident) (collection s) \<noteq> None \<longrightarrow>
        fst (deleteDocument ident s) = OK \<and>
        collection (snd (deleteDocument ident s)) =
          removeFirst (\<lambda>d. ID d = Some ident) (collection s) \<and>
        Suc (length (collection (snd (deleteDocument ident s)))) = length (collection s))
   \<and> (\<not> callFails (snd (deleteDocument ident s)) \<and>
        find (\<lambda>d. ID d = Some ident) (collection (snd (deleteDocument ident s))) = None \<longrightarrow>
        fst (deleteDocument ident (snd (deleteDocument ident s))) = NotFound)
   \<and> (\<not> callFails s \<and>
        length (filter (\<lambda>d. ID d = Some ident) (collection s)) \<le> 1 \<longrightarrow>
        find (\<lambda>d. ID d = Some ident) (collection (snd (deleteDocument ident s))) = None)
   \<and> (toInt (getIDParam ginCon) = Some ident \<longrightarrow>
        httpCode (fst (handleDeleteDocument ginCon s)) =
          (case fst (deleteDocument ident s) of
             OK \<Rightarrow> 204 | NotFound \<Rightarrow> 404 | CouldNotProceed \<Rightarrow> 502
           | ImplementationError \<Rightarrow> 500) \<and>
        snd (handleDeleteDocument ginCon s) = snd (deleteDocument ident s))"
proof -
  have failing: "callFails s \<longrightarrow> deleteDocument ident s = (CouldNotProceed, afterCall s)"
    by (simp add: deleteDocument_eq)
  have missing: "\<not> callFails s \<and> find (\<lambda>d. ID d = Some ident) (collection s) = None \<longrightarrow>
        deleteDocument ident s = (NotFound, afterCall s)"
    by (simp add: deleteDocument_eq)
  have removed: "\<not> callFails s \<and> find (\<lambda>d. ID d = Some ident) (collection s) \<noteq> None \<longrightarrow>
        fst (deleteDocument ident s) = OK \<and>
        collection (snd (deleteDocument ident s)) =
          removeFirst (\<lambda>d. ID d = Some ident) (collection s) \<and>
        Suc (length (collection (snd (deleteDocument ident s)))) = length (collection s)"
    using length_removeFirst [of "\<lambda>d. ID d = Some ident" "collection s"]
    by (cases "find (\<lambda>d. ID d = Some ident) (collection s)") (simp_all add: deleteDocument_eq)
  have second: "\<not> callFails (snd (deleteDocument ident s)) \<and>
        find (\<lambda>d. ID d = Some ident) (collection (snd (deleteDocument ident s))) = None \<longrightarrow>
        fst (deleteDocument ident (snd (deleteDocument ident s))) = NotFound"
    by (simp add: deleteDocument_eq [of ident "snd (deleteDocument ident s)"])
  have gone: "find (\<lambda>d. ID d = Some ident) (collection (snd (deleteDocument ident s))) = None"
    if "\<not> callFails s" "length (filter (\<lambda>d. ID d = Some ident) (collection s)) \<le> 1"
  proof (cases "find (\<lambda>d. ID d = Some ident) (collection s)")
    case None
    with that show ?thesis by (simp add: deleteDocument_eq)
  next
    case (Some d)
    with that find_removeFirst_unique [OF that(2)] show ?thesis
      by (simp add: deleteDocument_eq)
  qed
  have handler: "httpCode (fst (handleDeleteDocument ginCon s)) =
          (case fst (deleteDocument ident s) of
             OK \<Rightarrow> 204 | NotFound \<Rightarrow> 404 | CouldNotProceed \<Rightarrow> 502
           | ImplementationError \<Rightarrow> 500) \<and>
        snd (handleDeleteDocument ginCon s) = snd (deleteDocument ident s)"
    if "toInt (getIDParam ginCon) = Some ident"
    using that
    by (simp add: handleDeleteDocument_def sendJsonHttpResponse_def
          split: prod.splits DocumentStatus.splits)
  from failing missing removed second gone handler show ?thesis by blast
qed

theorem delete_status_witness:
  "callFails failingStore \<and> deleteDocument 1 failingStore = (CouldNotProceed, exampleStore)
   \<and> \<not> callFails emptyStore \<and> find (\<lambda>d. ID d = Some 1) (collection emptyStore) = None
   \<and> deleteDocument 1 emptyStore = (NotFound, emptyStore)
   \<and> \<not> callFails exampleStore
   \<and> find (\<lambda>d. ID d = Some 1) (collection exampleStore) = Some storedExample
   \<and> deleteDocument 1 exampleStore = (OK, emptyStore)
   \<and> length (filter (\<lambda>d. ID d = Some 1) (collection exampleStore)) = 1
   \<and> \<not> callFails (snd (deleteDocument 1 exampleStore))
   \<and> find (\<lambda>d. ID d = Some 1) (collection (snd (deleteDocument 1 exampleStore))) = None
   \<and> fst (deleteDocument 1 (snd (deleteDocument 1 exampleStore))) = NotFound
   \<and> toInt (getIDParam \<lparr>idParam = ''1'', jsonBody = None\<rparr>) = Some 1
   \<and> httpCode (fst (handleDeleteDocument \<lparr>idParam = ''1'', jsonBody = None\<rparr> exampleStore)) = 204
   \<and> httpCode (fst (handleDeleteDocument \<lparr>idParam = ''1'', jsonBody = None\<rparr> emptyStore)) = 404
   \<and> httpCode (fst (handleDeleteDocument \<lparr>idParam = ''1'', jsonBody = None\<rparr> failingStore)) = 502"
proof -
  have del: "deleteDocument 1 failingStore = (CouldNotProceed, exampleStore)"
    "deleteDocument 1 emptyStore = (NotFound, emptyStore)"
    "deleteDocument 1 exampleStore = (OK, emptyStore)"
    by (simp_all add: deleteDocument_eq) (simp add: exampleStore_def emptyStore_def)
  have par: "toInt (getIDParam \<lparr>idParam = ''1'', jsonBody = None\<rparr>) = Some 1"
    by (simp add: getIDParam_def toInt_1)
  from delete_status [where ident = 1 and s = failingStore
      and ginCon = "\<lparr>idParam = ''1'', jsonBody = None\<rparr>"]
    delete_status [where ident = 1 and s = emptyStore
      and ginCon = "\<lparr>idParam = ''1'', jsonBody = None\<rparr>"]
    delete_status [where ident = 1 and s = exampleStore
      and ginCon = "\<lparr>idParam = ''1'', jsonBody = None\<rparr>"]
  show ?thesis
    by (simp add: del par)
qed

text \<open>
  C10. \<^verbatim>\<open>getDocument\<close>, \<^verbatim>\<open>internalGetDocument\<close>, \<^verbatim>\<open>createDocument\<close> and
  \<^verbatim>\<open>updateDocument\<close> return a document exactly when they return the status OK;
  every other status comes with nil.
\<close>

theorem status_coupled_with_document:
  "(getDocument ident s = ((status, document), s') \<longrightarrow> (document \<noteq> None \<longleftrightarrow> status = OK))
   \<and> (internalGetDocument ident s = ((status, document), s') \<longrightarrow>
        (document \<noteq> None \<longleftrightarrow> status = OK))
   \<and> (createDocument newDocument s = (Returns (status, document), s') \<longrightarrow>
        (document \<noteq> None \<longleftrightarrow> status = OK))
   \<and> (updateDocument patchDocument s = ((status, document), s') \<longrightarrow>
        (document \<noteq> None \<longleftrightarrow> status = OK))"
  using getDocument_cases [of ident s status document s']
    internalGetDocument_cases [of ident s status document s']
    createDocument_cases [of newDocument s status document s']
    updateDocument_cases [of patchDocument s status document s']
  by auto

theorem status_coupled_with_document_witness:
  "getDocument 1 exampleStore = ((OK, Some storedExample), exampleStore)
   \<and> getDocument 1 emptyStore = ((NotFound, None), emptyStore)
   \<and> internalGetDocument 1 emptyStore = ((ImplementationError, None), emptyStore)
   \<and> createDocument newExample failingStore = (Returns (CouldNotProceed, None), exampleStore)
   \<and> updateDocument patchExample exampleStore =
       ((OK, Some mergedExample), \<lparr>collection = [mergedExample], faults = []\<rparr>)
   \<and> Some storedExample \<noteq> None \<and> OK \<noteq> NotFound"
  using status_coupled_with_document
      [where ident = 1 and s = exampleStore and status = OK and document = "Some storedExample"
         and s' = exampleStore]
    status_coupled_with_document
      [where ident = 1 and s = emptyStore and status = NotFound and document = None
         and s' = emptyStore]
    status_coupled_with_document
      [where ident = 1 and s = emptyStore and status = ImplementationError
         and document = None and s' = emptyStore]
    status_coupled_with_document
      [where s = failingStore and status = CouldNotProceed and document = None
         and s' = exampleStore and newDocument = newExample]
    status_coupled_with_document
      [where s = exampleStore and status = OK and document = "Some mergedExample"
         and s' = "\<lparr>collection = [mergedExample], faults = []\<rparr>"
         and patchDocument = patchExample]
  by (simp add: getDocument_eq internalGetDocument_eq createDocument_eq
        updateDocument_example)

end
